theory Spec2Isabelle
  imports Complex_Main "HOL-Library.AList" "HOL-Library.Sublist"
begin

section \<open>Python values\<close>

text \<open>
  The orchestrator of the DreamWeaver repository (\<^verbatim>\<open>dreamweaver/agents/orchestrator.py\<close>)
  works on values decoded by \<^verbatim>\<open>json.loads\<close> from the collaborators' answers. Such a
  value is modelled by \<open>jval\<close>. A \<open>JDict\<close> lists the items of a Python dict in insertion
  order. Python floats are doubles with the two infinities and NaN (\<^verbatim>\<open>json.loads\<close> accepts
  the tokens \<^verbatim>\<open>Infinity\<close> and \<^verbatim>\<open>NaN\<close>); the arithmetic on finite doubles is taken
  exact, rounding is not modelled.
\<close>

datatype pyfloat = Fin real | PInf | NInf | NaN

datatype jval = JNull | JBool bool | JInt int | JFloat pyfloat | JStr string
  | JList "jval list" | JDict "(string \<times> jval) list"

datatype py_error = TypeError | ValueError | KeyError | AttributeError | OverflowError
  | RuntimeError

fun fneg :: "pyfloat \<Rightarrow> pyfloat" where
  "fneg (Fin a) = Fin (- a)"
| "fneg PInf = NInf"
| "fneg NInf = PInf"
| "fneg NaN = NaN"

fun fadd :: "pyfloat \<Rightarrow> pyfloat \<Rightarrow> pyfloat" where
  "fadd NaN _ = NaN"
| "fadd _ NaN = NaN"
| "fadd (Fin a) (Fin b) = Fin (a + b)"
| "fadd (Fin _) PInf = PInf"
| "fadd (Fin _) NInf = NInf"
| "fadd PInf NInf = NaN"
| "fadd PInf _ = PInf"
| "fadd NInf PInf = NaN"
| "fadd NInf _ = NInf"

definition fsub :: "pyfloat \<Rightarrow> pyfloat \<Rightarrow> pyfloat" where
  "fsub a b = fadd a (fneg b)"

text \<open>\<open>fless a b\<close> is Python's \<^verbatim>\<open>a < b\<close> on floats: every comparison with NaN is false.\<close>

fun fless :: "pyfloat \<Rightarrow> pyfloat \<Rightarrow> bool" where
  "fless NaN _ = False"
| "fless _ NaN = False"
| "fless (Fin a) (Fin b) = (a < b)"
| "fless (Fin _) PInf = True"
| "fless (Fin _) NInf = False"
| "fless PInf _ = False"
| "fless NInf NInf = False"
| "fless NInf _ = True"

text \<open>
  The builtins \<^verbatim>\<open>min(a, b)\<close> and \<^verbatim>\<open>max(a, b)\<close> keep the first argument unless the
  second is strictly smaller (greater).
\<close>

definition py_min :: "pyfloat \<Rightarrow> pyfloat \<Rightarrow> pyfloat" where
  "py_min a b = (if fless b a then b else a)"

definition py_max :: "pyfloat \<Rightarrow> pyfloat \<Rightarrow> pyfloat" where
  "py_max a b = (if fless a b then b else a)"

text \<open>The expression \<^verbatim>\<open>max(0.0, min(1.0, x))\<close> that all numeric updates share.\<close>

definition clamp01 :: "pyfloat \<Rightarrow> pyfloat" where
  "clamp01 x = py_max (Fin 0) (py_min (Fin 1) x)"

fun in_unit :: "pyfloat \<Rightarrow> bool" where
  "in_unit (Fin r) = (0 \<le> r \<and> r \<le> 1)"
| "in_unit _ = False"

text \<open>
  \<^verbatim>\<open>float(x)\<close>. Parsing a string is Python's own (\<^verbatim>\<open>float("1e3")\<close>, \<^verbatim>\<open>float("nan")\<close>),
  not the repository's, and is a parameter \<open>fs\<close> of the model: \<open>fs s = None\<close> when the
  string is rejected with \<^verbatim>\<open>ValueError\<close>. An integer that rounds beyond the largest double
  raises \<^verbatim>\<open>OverflowError\<close>.
\<close>

type_synonym float_parser = "string \<Rightarrow> pyfloat option"

fun py_float :: "float_parser \<Rightarrow> jval \<Rightarrow> py_error + pyfloat" where
  "py_float fs (JFloat x) = Inr x"
| "py_float fs (JInt i) =
     (if \<bar>i\<bar> < 2 ^ 1024 - 2 ^ 970 then Inr (Fin (of_int i)) else Inl OverflowError)"
| "py_float fs (JBool b) = Inr (Fin (if b then 1 else 0))"
| "py_float fs (JStr s) = (case fs s of Some x \<Rightarrow> Inr x | None \<Rightarrow> Inl ValueError)"
| "py_float fs JNull = Inl TypeError"
| "py_float fs (JList _) = Inl TypeError"
| "py_float fs (JDict _) = Inl TypeError"

text \<open>
  \<^verbatim>\<open>str.strip()\<close> and \<^verbatim>\<open>int(s)\<close> on ASCII text: surrounding whitespace is dropped, one
  sign is allowed, and single underscores may separate digits.
\<close>

definition is_space :: "char \<Rightarrow> bool" where
  "is_space c = (c \<in> set [CHR 0x09, CHR 0x0A, CHR 0x0B, CHR 0x0C, CHR 0x0D,
                           CHR 0x1C, CHR 0x1D, CHR 0x1E, CHR 0x1F, CHR 0x20])"

definition py_strip :: "string \<Rightarrow> string" where
  "py_strip s = rev (dropWhile is_space (rev (dropWhile is_space s)))"

definition digit_val :: "char \<Rightarrow> nat option" where
  "digit_val c = (let n = (of_char c :: nat) in
                  if 48 \<le> n \<and> n \<le> 57 then Some (n - 48) else None)"

fun digits_val :: "nat \<Rightarrow> bool \<Rightarrow> string \<Rightarrow> nat option" where
  "digits_val acc after_digit [] = (if after_digit then Some acc else None)"
| "digits_val acc after_digit (c # cs) =
     (if c = CHR ''_'' then (if after_digit then digits_val acc False cs else None)
      else case digit_val c of
             None \<Rightarrow> None
           | Some d \<Rightarrow> digits_val (10 * acc + d) True cs)"

definition int_of_str :: "string \<Rightarrow> int option" where
  "int_of_str s =
     (case py_strip s of
        [] \<Rightarrow> None
      | c # cs \<Rightarrow>
          if c = CHR ''-'' then map_option (\<lambda>n. - int n) (digits_val 0 False cs)
          else if c = CHR ''+'' then map_option int (digits_val 0 False cs)
          else map_option int (digits_val 0 False (c # cs)))"

text \<open>\<^verbatim>\<open>int(x)\<close>: a float is truncated towards zero.\<close>

fun py_int :: "jval \<Rightarrow> py_error + int" where
  "py_int (JInt i) = Inr i"
| "py_int (JBool b) = Inr (if b then 1 else 0)"
| "py_int (JFloat (Fin r)) = Inr (if 0 \<le> r then \<lfloor>r\<rfloor> else \<lceil>r\<rceil>)"
| "py_int (JFloat NaN) = Inl ValueError"
| "py_int (JFloat _) = Inl OverflowError"
| "py_int (JStr s) = (case int_of_str s of Some i \<Rightarrow> Inr i | None \<Rightarrow> Inl ValueError)"
| "py_int JNull = Inl TypeError"
| "py_int (JList _) = Inl TypeError"
| "py_int (JDict _) = Inl TypeError"

text \<open>Truth value of an object, as tested by \<^verbatim>\<open>if x\<close>, \<^verbatim>\<open>not x\<close> and \<^verbatim>\<open>x or y\<close>.\<close>

fun py_truthy :: "jval \<Rightarrow> bool" where
  "py_truthy JNull = False"
| "py_truthy (JBool b) = b"
| "py_truthy (JInt i) = (i \<noteq> 0)"
| "py_truthy (JFloat x) = (x \<noteq> Fin 0)"
| "py_truthy (JStr s) = (s \<noteq> [])"
| "py_truthy (JList xs) = (xs \<noteq> [])"
| "py_truthy (JDict kvs) = (kvs \<noteq> [])"

definition py_or :: "jval \<Rightarrow> jval \<Rightarrow> jval" where
  "py_or a b = (if py_truthy a then a else b)"

text \<open>\<^verbatim>\<open>d.get(k, default)\<close>, \<^verbatim>\<open>d[k]\<close> with a string key, and iteration.\<close>

fun py_get :: "jval \<Rightarrow> string \<Rightarrow> jval \<Rightarrow> py_error + jval" where
  "py_get (JDict kvs) k d = Inr (case map_of kvs k of Some v \<Rightarrow> v | None \<Rightarrow> d)"
| "py_get _ k d = Inl AttributeError"

fun py_item :: "jval \<Rightarrow> string \<Rightarrow> py_error + jval" where
  "py_item (JDict kvs) k = (case map_of kvs k of Some v \<Rightarrow> Inr v | None \<Rightarrow> Inl KeyError)"
| "py_item _ k = Inl TypeError"

fun py_iter :: "jval \<Rightarrow> py_error + jval list" where
  "py_iter (JList xs) = Inr xs"
| "py_iter (JDict kvs) = Inr (map (\<lambda>kv. JStr (fst kv)) kvs)"
| "py_iter (JStr s) = Inr (map (\<lambda>c. JStr [c]) s)"
| "py_iter _ = Inl TypeError"

text \<open>
  Keys of the dicts that are indexed by collaborator-supplied ids. Lists and dicts are
  unhashable; the other values are compared structurally (Python also takes \<^verbatim>\<open>1\<close>,
  \<^verbatim>\<open>1.0\<close> and \<^verbatim>\<open>True\<close> for one key; the ids that the collaborators are asked
  for are strings).
\<close>

fun hashable :: "jval \<Rightarrow> bool" where
  "hashable (JList _) = False"
| "hashable (JDict _) = False"
| "hashable _ = True"

definition has_key :: "(jval \<times> 'a) list \<Rightarrow> jval \<Rightarrow> py_error + bool" where
  "has_key d k = (if hashable k then Inr (map_of d k \<noteq> None) else Inl TypeError)"

definition set_item :: "(jval \<times> 'a) list \<Rightarrow> jval \<Rightarrow> 'a \<Rightarrow> py_error + (jval \<times> 'a) list" where
  "set_item d k v = (if hashable k then Inr (AList.update k v d) else Inl TypeError)"

text \<open>\<^verbatim>\<open>xs[-n:]\<close> on a list.\<close>

definition last_n :: "nat \<Rightarrow> 'a list \<Rightarrow> 'a list" where
  "last_n n xs = drop (length xs - n) xs"

section \<open>The data model\<close>

text \<open>
  The dataclasses of \<^verbatim>\<open>dreamweaver/world/models.py\<close>. A field that the orchestrator
  fills with a value taken from a collaborator's answer as it comes holds a \<open>jval\<close>; the
  fields the orchestrator computes itself have the declared type. The exits of a region
  are labelled \<^verbatim>\<open>path1\<close>, \<^verbatim>\<open>path2\<close>, ... and the label is kept as its number.
\<close>

record region =
  r_id :: jval
  r_name :: jval
  r_description :: jval
  r_biome :: jval
  r_type :: jval
  r_neighbors :: jval
  r_known_to_player :: bool
  r_exits :: "(nat \<times> jval) list"
  r_local_quest_ids :: jval
  r_exit_flavor :: jval

record character =
  c_id :: jval
  c_name :: jval
  c_role :: jval
  c_location_region_id :: jval
  c_mood :: jval
  c_loyalty :: pyfloat
  c_traits :: jval
  c_memories :: jval

record player_state =
  p_user_id :: string
  p_character_id :: string
  p_name :: string
  p_char_class :: string
  p_location_region_id :: jval
  p_stats :: "(string \<times> pyfloat) list"
  p_reputation :: "(string \<times> pyfloat) list"
  p_goals :: "string list"
  p_inventory :: "string list"

record world_metrics =
  world_health :: pyfloat
  chaos_level :: pyfloat
  magic_level :: pyfloat
  alliance_tension :: pyfloat

record quest =
  q_id :: jval
  q_title :: jval
  q_status :: jval
  q_summary :: jval
  q_related_regions :: jval
  q_related_characters :: jval
  q_answer_type :: string
  q_correct_answers :: "string list"
  q_keywords :: "string list"

record event =
  e_id :: jval
  e_type :: jval
  e_description :: jval
  e_tick :: int
  e_affected_regions :: jval
  e_impact :: jval

record action =
  a_type :: jval
  a_target_region_id :: jval
  a_target_character_id :: jval
  a_params :: jval

text \<open>
  Formatted text is kept by its parts. A chat line is \<^verbatim>\<open>f"{user_id}: {message}"\<close>
  (\<open>ChatLine\<close>, written by the chat endpoint) or the mirror of a player-to-player TALK,
  \<^verbatim>\<open>f"{player.name} -> {target_player.name}: {line}"\<close> (\<open>TalkLine\<close>). A note of the turn is
  the block of talk snippets or the block of quest notifications; both start with fixed
  text, so the joined notes are blank exactly when there is no note. A scene is the story
  text: narration, notes, the window of recent commands and the suggested actions.
\<close>

datatype chat_entry = ChatLine string string | TalkLine string string jval

datatype turn_note = TalkNote "string list" | QuestNote "jval list"

datatype scene = Scene jval "turn_note list" "jval list" "jval list"

record story_entry =
  se_tick :: int
  se_user_id :: string
  se_message :: string
  se_text :: scene
  se_timestamp :: real

record world_state =
  world_id :: string
  seed_prompt :: string
  tick :: int
  regions :: "(jval \<times> region) list"
  characters :: "(jval \<times> character) list"
  players :: "(string \<times> player_state) list"
  quests :: "(jval \<times> quest) list"
  metrics :: world_metrics
  history_summaries :: jval
  last_events :: "event list"
  active_players :: "(string \<times> jval) list"
  last_scene_text :: "scene option"
  world_size :: jval
  chat_log :: "chat_entry list"
  story_log :: "story_entry list"
  is_open :: bool

text \<open>
  The store of \<^verbatim>\<open>dreamweaver/services/storage.py\<close>: \<^verbatim>\<open>load_world\<close> returns \<^verbatim>\<open>None\<close> for
  an id without a file, \<^verbatim>\<open>save_world\<close> writes the state under its own id. The JSON
  encoding on disk is not modelled: a load returns the state that was saved.
\<close>

type_synonym store = "string \<Rightarrow> world_state option"

definition load_world :: "store \<Rightarrow> string \<Rightarrow> world_state option" where
  "load_world st wid = st wid"

definition save_world :: "world_state \<Rightarrow> store \<Rightarrow> store" where
  "save_world ws st = st(world_id ws \<mapsto> ws)"

definition SESSION_TIMEOUT_SECONDS :: real where
  "SESSION_TIMEOUT_SECONDS = 600"

section \<open>Player statistics and presence\<close>

text \<open>
  \<^verbatim>\<open>_apply_stat_changes\<close>: one step of the loop over \<^verbatim>\<open>(deltas or {}).items()\<close>, then the
  loop. Any exception of \<^verbatim>\<open>float(delta)\<close> is caught and the old value is written back.
\<close>

definition apply_stat_delta ::
  "float_parser \<Rightarrow> (string \<times> pyfloat) list \<Rightarrow> string \<times> jval \<Rightarrow> (string \<times> pyfloat) list" where
  "apply_stat_delta fs stats nd =
     (let old = (case map_of stats (fst nd) of Some v \<Rightarrow> v | None \<Rightarrow> Fin (1 / 2));
          new = (case py_float fs (snd nd) of
                   Inr d \<Rightarrow> clamp01 (fadd old d)
                 | Inl _ \<Rightarrow> old)
      in AList.update (fst nd) new stats)"

definition apply_stat_changes ::
  "float_parser \<Rightarrow> player_state \<Rightarrow> jval \<Rightarrow> py_error + player_state" where
  "apply_stat_changes fs player deltas =
     (if \<not> py_truthy deltas then Inr player
      else case deltas of
             JDict kvs \<Rightarrow> Inr (player\<lparr>p_stats := foldl (apply_stat_delta fs) (p_stats player) kvs\<rparr>)
           | _ \<Rightarrow> Inl AttributeError)"

text \<open>
  \<^verbatim>\<open>_prune_inactive_players\<close>: the entries to remove are collected first, then deleted;
  the world is closed when none is left.
\<close>

definition timed_out :: "float_parser \<Rightarrow> real \<Rightarrow> jval \<Rightarrow> bool" where
  "timed_out fs now last_ts =
     (case py_float fs last_ts of
        Inr t \<Rightarrow> fless (Fin SESSION_TIMEOUT_SECONDS) (fsub (Fin now) t)
      | Inl _ \<Rightarrow> True)"

definition prune_inactive_players :: "float_parser \<Rightarrow> real \<Rightarrow> world_state \<Rightarrow> world_state" where
  "prune_inactive_players fs now ws =
     (let to_remove = map fst (filter (\<lambda>e. timed_out fs now (snd e)) (active_players ws));
          ap = foldl (\<lambda>d uid. AList.delete uid d) (active_players ws) to_remove
      in ws\<lparr>active_players := ap, is_open := (if ap = [] then False else is_open ws)\<rparr>)"

section \<open>Creating a world and its players\<close>

text \<open>
  An exception leaves the function at once: the result of a step is \<open>Inl\<close> the error or
  \<open>Inr\<close> the value, and \<open>ebind\<close> passes the value on. \<open>efold\<close> is a \<^verbatim>\<open>for\<close> loop over
  a list whose body may raise, \<open>emap\<close> a loop that collects one result per element.
\<close>

definition ebind :: "'e + 'a \<Rightarrow> ('a \<Rightarrow> 'e + 'b) \<Rightarrow> 'e + 'b" where
  "ebind m f = (case m of Inl e \<Rightarrow> Inl e | Inr x \<Rightarrow> f x)"

fun efold :: "('s \<Rightarrow> 'a \<Rightarrow> 'e + 's) \<Rightarrow> 's \<Rightarrow> 'a list \<Rightarrow> 'e + 's" where
  "efold f s [] = Inr s"
| "efold f s (x # xs) = (case f s x of Inl e \<Rightarrow> Inl e | Inr s' \<Rightarrow> efold f s' xs)"

fun emap :: "('a \<Rightarrow> 'e + 'b) \<Rightarrow> 'a list \<Rightarrow> 'e + 'b list" where
  "emap f [] = Inr []"
| "emap f (x # xs) =
     (case f x of
        Inl e \<Rightarrow> Inl e
      | Inr y \<Rightarrow> (case emap f xs of Inl e \<Rightarrow> Inl e | Inr ys \<Rightarrow> Inr (y # ys)))"

definition dict_get :: "(string \<times> jval) list \<Rightarrow> string \<Rightarrow> jval \<Rightarrow> jval" where
  "dict_get kvs k d = (case map_of kvs k of Some v \<Rightarrow> v | None \<Rightarrow> d)"

text \<open>The region that seeds a world when the world architect names none.\<close>

definition fallback_regions :: jval where
  "fallback_regions =
     JList [JDict [(''id'', JStr ''glass_whale_bay''),
                   (''name'', JStr ''Glass Whale Bay''),
                   (''type'', JStr ''bay''),
                   (''description'',
                    JStr ''A floating city built on the back of a shimmering glass whale.''),
                   (''neighbors'', JList [])]]"

definition region_of_json :: "jval \<Rightarrow> py_error + region" where
  "region_of_json r =
     (case r of
        JDict kvs \<Rightarrow>
          (case py_iter (dict_get kvs ''neighbors'' (JList [])) of
             Inl e \<Rightarrow> Inl e
           | Inr nbs \<Rightarrow>
               (case map_of kvs ''id'' of
                  None \<Rightarrow> Inl KeyError
                | Some rid \<Rightarrow>
                    Inr \<lparr>r_id = rid,
                         r_name = dict_get kvs ''name'' rid,
                         r_description = dict_get kvs ''description'' (JStr []),
                         r_biome = dict_get kvs ''biome'' (JStr ''plains''),
                         r_type = dict_get kvs ''type'' (JStr ''unknown''),
                         r_neighbors = dict_get kvs ''neighbors'' (JList []),
                         r_known_to_player = True,
                         r_exits = zip [1 ..< Suc (length nbs)] nbs,
                         r_local_quest_ids = dict_get kvs ''local_quest_ids'' (JList []),
                         r_exit_flavor = dict_get kvs ''exit_flavor'' (JDict [])\<rparr>))
      | _ \<Rightarrow> Inl AttributeError)"

definition add_region :: "(jval \<times> region) list \<Rightarrow> jval \<Rightarrow> py_error + (jval \<times> region) list" where
  "add_region d r = ebind (region_of_json r) (\<lambda>reg. set_item d (r_id reg) reg)"

text \<open>
  The body of the \<^verbatim>\<open>try\<close> that builds one quest; any exception skips the entry
  (\<^verbatim>\<open>except Exception: continue\<close>). The same code reads the starter quests of a new world
  and the quests returned by the quest master.
\<close>

definition quest_of_json :: "jval \<Rightarrow> quest option" where
  "quest_of_json q =
     (case q of
        JDict kvs \<Rightarrow>
          (case map_of kvs ''id'' of
             None \<Rightarrow> None
           | Some qid \<Rightarrow>
               if hashable qid
               then Some \<lparr>q_id = qid,
                          q_title = dict_get kvs ''title'' qid,
                          q_status = dict_get kvs ''status'' (JStr ''open''),
                          q_summary = dict_get kvs ''summary'' (JStr []),
                          q_related_regions = dict_get kvs ''related_regions'' (JList []),
                          q_related_characters = dict_get kvs ''related_characters'' (JList []),
                          q_answer_type = ''none'',
                          q_correct_answers = [],
                          q_keywords = []\<rparr>
               else None)
      | _ \<Rightarrow> None)"

definition add_quest :: "(jval \<times> quest) list \<Rightarrow> jval \<Rightarrow> (jval \<times> quest) list" where
  "add_quest d q = (case quest_of_json q of None \<Rightarrow> d | Some qo \<Rightarrow> AList.update (q_id qo) qo d)"

definition character_of_json :: "float_parser \<Rightarrow> jval \<Rightarrow> jval \<Rightarrow> py_error + character" where
  "character_of_json fs first_region_id c =
     (case c of
        JDict kvs \<Rightarrow>
          (case map_of kvs ''id'' of
             None \<Rightarrow> Inl KeyError
           | Some cid \<Rightarrow>
               (case py_float fs (dict_get kvs ''loyalty'' (JFloat (Fin (1 / 2)))) of
                  Inl e \<Rightarrow> Inl e
                | Inr l \<Rightarrow>
                    Inr \<lparr>c_id = cid,
                         c_name = dict_get kvs ''name'' cid,
                         c_role = dict_get kvs ''role'' (JStr ''npc''),
                         c_location_region_id = dict_get kvs ''location_region_id'' first_region_id,
                         c_mood = dict_get kvs ''mood'' (JStr ''neutral''),
                         c_loyalty = l,
                         c_traits = dict_get kvs ''traits'' (JList []),
                         c_memories = dict_get kvs ''memories'' (JList [])\<rparr>))
      | _ \<Rightarrow> Inl TypeError)"

definition add_character ::
  "float_parser \<Rightarrow> jval \<Rightarrow> (jval \<times> character) list \<Rightarrow> jval \<Rightarrow> py_error + (jval \<times> character) list" where
  "add_character fs first_region_id d c =
     ebind (character_of_json fs first_region_id c) (\<lambda>ch. set_item d (c_id ch) ch)"

definition default_metrics :: world_metrics where
  "default_metrics = \<lparr>world_health = Fin (7 / 10), chaos_level = Fin (3 / 10),
                       magic_level = Fin (4 / 10), alliance_tension = Fin (2 / 10)\<rparr>"

text \<open>
  The branch \<^verbatim>\<open>if ws is None\<close> of \<^verbatim>\<open>_load_or_init_world_state\<close>; \<open>wa\<close> is the answer of
  the world architect.
\<close>

definition new_world :: "float_parser \<Rightarrow> string \<Rightarrow> string \<Rightarrow> jval \<Rightarrow> py_error + world_state" where
  "new_world fs wid seed wa =
     (case wa of
        JDict w \<Rightarrow>
          (let regions_list = (if \<not> py_truthy (dict_get w ''regions'' (JList []))
                               then fallback_regions else dict_get w ''regions'' (JList []))
           in ebind (py_iter regions_list) (\<lambda>rs.
              ebind (efold add_region [] rs) (\<lambda>regions_dict.
              ebind (case regions_list of
                       JList (r # _) \<Rightarrow> py_item r ''id''
                     | _ \<Rightarrow> Inl TypeError) (\<lambda>first_region_id.
              ebind (py_iter (dict_get w ''starter_quests'' (JList []))) (\<lambda>qs.
              ebind (py_iter (dict_get w ''starter_characters'' (JList []))) (\<lambda>cs.
              ebind (efold (add_character fs first_region_id) [] cs) (\<lambda>chars.
                Inr \<lparr>world_id = wid,
                     seed_prompt = seed,
                     tick = 0,
                     regions = regions_dict,
                     characters = chars,
                     players = [],
                     quests = foldl add_quest [] qs,
                     metrics = default_metrics,
                     history_summaries = dict_get w ''history_notes'' (JList []),
                     last_events = [],
                     active_players = [],
                     last_scene_text = None,
                     world_size = dict_get w ''world_size'' (JStr ''medium''),
                     chat_log = [],
                     story_log = [],
                     is_open = False\<rparr>)))))))
      | _ \<Rightarrow> Inl AttributeError)"

definition default_stats :: "(string \<times> pyfloat) list" where
  "default_stats = [(''courage'', Fin (1 / 2)), (''empathy'', Fin (1 / 2)), (''cunning'', Fin (1 / 2))]"

definition new_player :: "string \<Rightarrow> jval \<Rightarrow> player_state" where
  "new_player uid first_region_id =
     \<lparr>p_user_id = uid, p_character_id = uid @ ''_char'', p_name = uid,
      p_char_class = ''wanderer'', p_location_region_id = first_region_id,
      p_stats = default_stats, p_reputation = [], p_goals = [], p_inventory = []\<rparr>"

text \<open>
  The block \<^verbatim>\<open>Ensure player exists\<close>. \<^verbatim>\<open>next(iter(...))\<close> on a world without regions
  raises \<^verbatim>\<open>StopIteration\<close>, which leaves a coroutine as \<^verbatim>\<open>RuntimeError\<close>.
\<close>

definition ensure_player :: "string \<Rightarrow> world_state \<Rightarrow> py_error + world_state" where
  "ensure_player uid ws =
     (if map_of (players ws) uid \<noteq> None then Inr ws
      else case regions ws of
             [] \<Rightarrow> Inl RuntimeError
           | kr # _ \<Rightarrow> Inr (ws\<lparr>players := AList.update uid (new_player uid (fst kr)) (players ws)\<rparr>))"

definition load_or_init_world_state ::
  "float_parser \<Rightarrow> store \<Rightarrow> string \<Rightarrow> string \<Rightarrow> string \<Rightarrow> jval \<Rightarrow> py_error + world_state" where
  "load_or_init_world_state fs st uid wid seed wa =
     (case load_world st wid of
        Some ws \<Rightarrow> ensure_player uid ws
      | None \<Rightarrow> ebind (new_world fs wid seed wa) (ensure_player uid))"

section \<open>Interpreted actions and their resolution\<close>

definition wait_action :: action where
  "wait_action = \<lparr>a_type = JStr ''WAIT'', a_target_region_id = JNull,
                   a_target_character_id = JNull, a_params = JDict []\<rparr>"

definition action_of_json :: "jval \<Rightarrow> py_error + action" where
  "action_of_json a =
     (case a of
        JDict kvs \<Rightarrow>
          Inr \<lparr>a_type = dict_get kvs ''type'' (JStr ''WAIT''),
               a_target_region_id = dict_get kvs ''target_region_id'' JNull,
               a_target_character_id = dict_get kvs ''target_character_id'' JNull,
               a_params = py_or (dict_get kvs ''params'' (JDict [])) (JDict [])\<rparr>
      | _ \<Rightarrow> Inl AttributeError)"

text \<open>\<^verbatim>\<open>_parse_actions\<close>; \<open>ci\<close> is the answer of the command interpreter.\<close>

definition parse_actions :: "jval \<Rightarrow> py_error + action list" where
  "parse_actions ci =
     ebind (py_get ci ''actions'' (JList [])) (\<lambda>raw_actions.
     ebind (py_iter raw_actions) (\<lambda>raw.
     ebind (emap action_of_json raw) (\<lambda>actions.
       Inr (if actions = [] then [wait_action] else actions))))"

text \<open>
  The state of the loop over the actions in \<^verbatim>\<open>_update_world\<close>: the world, \<^verbatim>\<open>num_ticks\<close>,
  the talk snippets, and the indices of the actions for which the dialogue collaborator
  has been called. The collaborator's answer to the call made for the action at index
  \<open>i\<close> is \<open>dw i\<close>.
\<close>

record resolve_state =
  rs_world :: world_state
  rs_num_ticks :: int
  rs_talk_snippets :: "string list"
  rs_dialogue_calls :: "nat list"

definition cap_log :: "nat \<Rightarrow> 'a list \<Rightarrow> 'a list" where
  "cap_log n xs = (if length xs > n then last_n n xs else xs)"

text \<open>The \<^verbatim>\<open>try\<close> of FAST_FORWARD: any exception gives one day.\<close>

definition fast_forward_days :: "jval \<Rightarrow> int" where
  "fast_forward_days params =
     (case ebind (py_get params ''days'' (JInt 1)) py_int of Inr days \<Rightarrow> days | Inl _ \<Rightarrow> 1)"

definition names_player :: "jval \<Rightarrow> player_state \<Rightarrow> bool" where
  "names_player t p = (t = JStr (p_character_id p) \<or> t = JStr (p_name p) \<or> t = JStr (p_user_id p))"

definition find_target_player :: "world_state \<Rightarrow> jval \<Rightarrow> player_state option" where
  "find_target_player ws t =
     (if py_truthy t then find (names_player t) (map snd (players ws)) else None)"

definition address_notice :: "string \<Rightarrow> string" where
  "address_notice name =
     ''You address '' @ name @ '' directly. They are here and can respond on their own turn.''"

definition not_around_notice :: "string \<Rightarrow> string" where
  "not_around_notice name =
     ''You call out for '' @ name @ '', but they don't seem to be around right now. ''
       @ ''Maybe focus on the world and its quests until they return.''"

definition talk_to_player ::
  "string \<Rightarrow> action \<Rightarrow> player_state \<Rightarrow> resolve_state \<Rightarrow> py_error + resolve_state" where
  "talk_to_player uid act target_player rs =
     (let ws = rs_world rs in
      case map_of (players ws) uid of
        None \<Rightarrow> Inl KeyError
      | Some player \<Rightarrow>
          (let snippet = (if map_of (active_players ws) (p_user_id target_player) \<noteq> None
                          then address_notice (p_name target_player)
                          else not_around_notice (p_name target_player));
               line = (case a_params act of
                         JDict kvs \<Rightarrow> dict_get kvs ''utterance'' JNull
                       | _ \<Rightarrow> JNull);
               chat = (if py_truthy line
                       then cap_log 200 (chat_log ws
                              @ [TalkLine (p_name player) (p_name target_player) line])
                       else chat_log ws)
           in Inr (rs\<lparr>rs_world := ws\<lparr>chat_log := chat\<rparr>,
                       rs_talk_snippets := rs_talk_snippets rs @ [snippet]\<rparr>)))"

text \<open>\<^verbatim>\<open>"k" in x\<close> for a string \<open>k\<close>.\<close>

fun py_contains_str :: "jval \<Rightarrow> string \<Rightarrow> py_error + bool" where
  "py_contains_str (JDict kvs) k = Inr (map_of kvs k \<noteq> None)"
| "py_contains_str (JList xs) k = Inr (JStr k \<in> set xs)"
| "py_contains_str (JStr s) k = Inr (sublist k s)"
| "py_contains_str _ k = Inl TypeError"

definition apply_npc_effects :: "float_parser \<Rightarrow> character \<Rightarrow> jval \<Rightarrow> py_error + character" where
  "apply_npc_effects fs npc world_effects =
     ebind (py_contains_str world_effects ''npc_mood'') (\<lambda>has_mood.
     ebind (if has_mood
            then ebind (py_item world_effects ''npc_mood'') (\<lambda>m. Inr (npc\<lparr>c_mood := m\<rparr>))
            else Inr npc) (\<lambda>npc1.
     ebind (py_contains_str world_effects ''npc_loyalty_delta'') (\<lambda>has_delta.
       Inr (if has_delta
            then (case ebind (py_item world_effects ''npc_loyalty_delta'') (py_float fs) of
                    Inr delta \<Rightarrow> npc1\<lparr>c_loyalty := clamp01 (fadd (c_loyalty npc1) delta)\<rparr>
                  | Inl _ \<Rightarrow> npc1)
            else npc1))))"

definition conversation_snippet :: "jval \<Rightarrow> jval \<Rightarrow> py_error + string option" where
  "conversation_snippet dialogue_text npc_reaction =
     (if \<not> py_truthy dialogue_text then Inr None
      else case dialogue_text of
             JStr d \<Rightarrow>
               (if \<not> py_truthy npc_reaction then Inr (Some (''Conversation:'' @ [CHR 0x0A] @ d))
                else case npc_reaction of
                       JStr r \<Rightarrow> Inr (Some (''Conversation:'' @ [CHR 0x0A] @ d
                                   @ [CHR 0x0A, CHR 0x0A] @ ''NPC reaction: '' @ r))
                     | _ \<Rightarrow> Inl TypeError)
           | _ \<Rightarrow> Inl TypeError)"

definition talk_to_npc ::
  "float_parser \<Rightarrow> (nat \<Rightarrow> jval) \<Rightarrow> string \<Rightarrow> nat \<Rightarrow> action \<Rightarrow> resolve_state
     \<Rightarrow> py_error + resolve_state" where
  "talk_to_npc fs dw uid i act rs =
     (let ws = rs_world rs; t = a_target_character_id act in
      ebind (if py_truthy t then has_key (characters ws) t else Inr False) (\<lambda>known.
      let npc = (if known then map_of (characters ws) t else None);
          dw_result = dw i
      in ebind (py_get dw_result ''dialogue'' (JStr [])) (\<lambda>dialogue_text.
         ebind (py_get dw_result ''npc_reaction'' (JStr [])) (\<lambda>npc_reaction.
         ebind (py_get dw_result ''world_effects'' (JDict [])) (\<lambda>we.
         let world_effects = py_or we (JDict []) in
         ebind (conversation_snippet dialogue_text npc_reaction) (\<lambda>snippet.
         ebind (case npc of
                  None \<Rightarrow> Inr (characters ws)
                | Some n \<Rightarrow> ebind (apply_npc_effects fs n world_effects)
                             (\<lambda>n'. Inr (AList.update t n' (characters ws)))) (\<lambda>chars.
         ebind (py_get world_effects ''player_stats_delta'' (JDict [])) (\<lambda>ps_delta.
         ebind (case map_of (players ws) uid of
                  None \<Rightarrow> Inl KeyError
                | Some player \<Rightarrow> apply_stat_changes fs player (py_or ps_delta (JDict []))) (\<lambda>player'.
           Inr (rs\<lparr>rs_world := ws\<lparr>characters := chars,
                                    players := AList.update uid player' (players ws)\<rparr>,
                   rs_talk_snippets := rs_talk_snippets rs
                     @ (case snippet of None \<Rightarrow> [] | Some s \<Rightarrow> [s]),
                   rs_dialogue_calls := rs_dialogue_calls rs @ [i]\<rparr>))))))))))"

text \<open>The body of the loop \<^verbatim>\<open>for action in actions\<close>, for the action at index \<open>fst ia\<close>.\<close>

definition resolve_action ::
  "float_parser \<Rightarrow> (nat \<Rightarrow> jval) \<Rightarrow> string \<Rightarrow> resolve_state \<Rightarrow> nat \<times> action
     \<Rightarrow> py_error + resolve_state" where
  "resolve_action fs dw uid rs ia =
     (let act = snd ia; ws = rs_world rs in
      if a_type act = JStr ''MOVE'' \<and> py_truthy (a_target_region_id act) then
        ebind (has_key (regions ws) (a_target_region_id act)) (\<lambda>known.
          if known
          then (case map_of (players ws) uid of
                  None \<Rightarrow> Inl KeyError
                | Some player \<Rightarrow>
                    Inr (rs\<lparr>rs_world := ws\<lparr>players := AList.update uid
                            (player\<lparr>p_location_region_id := a_target_region_id act\<rparr>)
                            (players ws)\<rparr>\<rparr>))
          else Inr rs)
      else if a_type act = JStr ''FAST_FORWARD'' then
        Inr (rs\<lparr>rs_num_ticks := max 1 (fast_forward_days (a_params act))\<rparr>)
      else if a_type act = JStr ''TALK'' then
        (case find_target_player ws (a_target_character_id act) of
           Some target_player \<Rightarrow> talk_to_player uid act target_player rs
         | None \<Rightarrow> talk_to_npc fs dw uid (fst ia) act rs)
      else Inr rs)"

section \<open>Advancing the world and reconciling the quests\<close>

text \<open>
  The four assignments to the metrics, in their order; \<open>md\<close> is \<^verbatim>\<open>metrics_delta\<close>. The
  conversions \<^verbatim>\<open>float(...)\<close> are not inside a \<^verbatim>\<open>try\<close> here.
\<close>

definition metric_step :: "float_parser \<Rightarrow> jval \<Rightarrow> string \<Rightarrow> pyfloat \<Rightarrow> py_error + pyfloat" where
  "metric_step fs md k old =
     ebind (py_get md k (JFloat (Fin 0))) (\<lambda>v.
     ebind (py_float fs v) (\<lambda>d. Inr (clamp01 (fadd old d))))"

definition apply_metrics_delta ::
  "float_parser \<Rightarrow> world_metrics \<Rightarrow> jval \<Rightarrow> py_error + world_metrics" where
  "apply_metrics_delta fs m md =
     ebind (metric_step fs md ''world_health'' (world_health m)) (\<lambda>wh.
     ebind (metric_step fs md ''chaos_level'' (chaos_level m)) (\<lambda>cl.
     ebind (metric_step fs md ''magic_level'' (magic_level m)) (\<lambda>ml.
     ebind (metric_step fs md ''alliance_tension'' (alliance_tension m)) (\<lambda>ten.
       Inr \<lparr>world_health = wh, chaos_level = cl, magic_level = ml, alliance_tension = ten\<rparr>))))"

definition event_of_json :: "int \<Rightarrow> jval \<Rightarrow> py_error + event" where
  "event_of_json t e =
     (case e of
        JDict kvs \<Rightarrow>
          (case map_of kvs ''id'' of
             None \<Rightarrow> Inl KeyError
           | Some eid \<Rightarrow>
               Inr \<lparr>e_id = eid,
                    e_type = dict_get kvs ''type'' (JStr ''generic''),
                    e_description = dict_get kvs ''description'' (JStr []),
                    e_tick = t,
                    e_affected_regions = dict_get kvs ''affected_regions'' (JList []),
                    e_impact = dict_get kvs ''impact'' (JDict [])\<rparr>)
      | _ \<Rightarrow> Inl TypeError)"

definition add_event ::
  "int \<Rightarrow> event list \<times> jval option \<Rightarrow> jval \<Rightarrow> py_error + event list \<times> jval option" where
  "add_event t acc e =
     ebind (event_of_json t e) (\<lambda>ev.
       if hashable (e_type ev)
       then Inr (fst acc @ [ev],
                 if e_type ev = JStr ''dragon_hatching'' \<or> e_type ev = JStr ''boss_battle''
                 then Some (e_type ev) else snd acc)
       else Inl TypeError)"

text \<open>
  The event stage of \<^verbatim>\<open>_update_world\<close>; \<open>ee\<close> is the answer of the event engine. It
  returns the world and \<^verbatim>\<open>special_event\<close>.
\<close>

definition advance ::
  "float_parser \<Rightarrow> jval \<Rightarrow> string \<Rightarrow> int \<Rightarrow> world_state \<Rightarrow> py_error + world_state \<times> jval option" where
  "advance fs ee uid num_ticks ws =
     ebind (py_get ee ''metrics_delta'' (JDict [])) (\<lambda>metrics_delta.
     ebind (apply_metrics_delta fs (metrics ws) metrics_delta) (\<lambda>m.
     ebind (py_get ee ''player_stats_delta'' (JDict [])) (\<lambda>ee_stats_delta.
     ebind (case map_of (players ws) uid of
              None \<Rightarrow> Inl KeyError
            | Some player \<Rightarrow> apply_stat_changes fs player ee_stats_delta) (\<lambda>player'.
     ebind (py_get ee ''events'' (JList [])) (\<lambda>events.
     ebind (py_iter events) (\<lambda>es.
     ebind (efold (add_event (tick ws + num_ticks)) ([], None) es) (\<lambda>acc.
       Inr (ws\<lparr>metrics := m,
               players := AList.update uid player' (players ws),
               last_events := fst acc,
               tick := tick ws + num_ticks\<rparr>, snd acc))))))))"

text \<open>
  The quest map after the quest master has answered with \<^verbatim>\<open>quests_out\<close>: the new map
  replaces the old one when it is not empty.
\<close>

definition reconcile_quests :: "(jval \<times> quest) list \<Rightarrow> jval \<Rightarrow> py_error + (jval \<times> quest) list" where
  "reconcile_quests old quests_out =
     (if py_truthy quests_out
      then ebind (py_iter quests_out) (\<lambda>qs.
             let new_quests = foldl add_quest [] qs
             in Inr (if new_quests \<noteq> [] then new_quests else old))
      else Inr old)"

definition quest_stage ::
  "float_parser \<Rightarrow> jval \<Rightarrow> string \<Rightarrow> world_state \<Rightarrow> py_error + world_state \<times> turn_note list" where
  "quest_stage fs qm uid ws =
     ebind (py_get qm ''quests'' (JList [])) (\<lambda>quests_out.
     ebind (py_get qm ''notifications'' (JList [])) (\<lambda>n0.
     let notifications = py_or n0 (JList []) in
     ebind (reconcile_quests (quests ws) quests_out) (\<lambda>qmap.
     ebind (if py_truthy notifications
            then ebind (py_iter notifications) (\<lambda>ns. Inr [QuestNote ns])
            else Inr []) (\<lambda>notes.
     ebind (py_get qm ''player_stats_delta'' (JDict [])) (\<lambda>qm_stats_delta.
     ebind (case map_of (players ws) uid of
              None \<Rightarrow> Inl KeyError
            | Some player \<Rightarrow> apply_stat_changes fs player qm_stats_delta) (\<lambda>player'.
       Inr (ws\<lparr>quests := qmap, players := AList.update uid player' (players ws)\<rparr>, notes)))))))"

text \<open>
  \<^verbatim>\<open>_update_world\<close>. Besides the four values the source returns, the result records what
  the collaborators were given: \<^verbatim>\<open>num_ticks\<close> as passed to the event engine, and the
  calls of the dialogue collaborator.
\<close>

record update_result =
  ur_world :: world_state
  ur_last_action_type :: jval
  ur_special_event :: "jval option"
  ur_extra_notes :: "turn_note list"
  ur_num_ticks :: int
  ur_dialogue_calls :: "nat list"

definition resolve_actions ::
  "float_parser \<Rightarrow> (nat \<Rightarrow> jval) \<Rightarrow> string \<Rightarrow> world_state \<Rightarrow> action list
     \<Rightarrow> py_error + resolve_state" where
  "resolve_actions fs dw uid ws actions =
     efold (resolve_action fs dw uid)
       \<lparr>rs_world = ws, rs_num_ticks = 1, rs_talk_snippets = [], rs_dialogue_calls = []\<rparr>
       (zip [0 ..< length actions] actions)"

definition update_world ::
  "float_parser \<Rightarrow> (nat \<Rightarrow> jval) \<Rightarrow> jval \<Rightarrow> jval \<Rightarrow> world_state \<Rightarrow> string \<Rightarrow> action list
     \<Rightarrow> py_error + update_result" where
  "update_world fs dw ee qm ws uid actions =
     (case map_of (players ws) uid of
        None \<Rightarrow> Inl KeyError
      | Some _ \<Rightarrow>
          ebind (resolve_actions fs dw uid ws actions) (\<lambda>rs.
          ebind (advance fs ee uid (rs_num_ticks rs) (rs_world rs)) (\<lambda>adv.
          ebind (quest_stage fs qm uid (fst adv)) (\<lambda>qst.
            Inr \<lparr>ur_world = fst qst,
                 ur_last_action_type =
                   (if actions = [] then JStr ''WAIT'' else a_type (last actions)),
                 ur_special_event = snd adv,
                 ur_extra_notes =
                   (if rs_talk_snippets rs = [] then [] else [TalkNote (rs_talk_snippets rs)])
                     @ snd qst,
                 ur_num_ticks = rs_num_ticks rs,
                 ur_dialogue_calls = rs_dialogue_calls rs\<rparr>))))"

section \<open>The operations of the orchestrator\<close>

text \<open>
  What a turn takes from outside the orchestrator: Python's parser of floats, the
  readings of \<^verbatim>\<open>time.time()\<close>, the answers of the six collaborators
  (\<^verbatim>\<open>_call_agent_json\<close> returns whatever \<^verbatim>\<open>json.loads\<close> decodes, or \<^verbatim>\<open>{}\<close>), and the
  renderer of the map, which reads the world only. The summary of the world that goes
  into the input of each collaborator (\<^verbatim>\<open>_summarize_world\<close>) is formatting of the state
  and changes nothing; it is left out, the answers being arbitrary anyway.
\<close>

record turn_env =
  te_float_of_str :: float_parser
  te_now_prune :: real
  te_now_touch :: real
  te_now_story :: real
  te_world_architect :: jval
  te_command_interpreter :: jval
  te_dialogue_weaver :: "nat \<Rightarrow> jval"
  te_event_engine :: jval
  te_quest_master :: jval
  te_story_conductor :: jval
  te_render_turn :: "world_state \<Rightarrow> jval \<Rightarrow> jval option \<Rightarrow> string"

text \<open>\<^verbatim>\<open>seed_prompt_if_new or user_message or "Create a new world."\<close>\<close>

definition seed_for :: "string option \<Rightarrow> string \<Rightarrow> string" where
  "seed_for seed_prompt_if_new user_message =
     (let fallback = (if user_message \<noteq> [] then user_message else ''Create a new world.'') in
      case seed_prompt_if_new of
        None \<Rightarrow> fallback
      | Some s \<Rightarrow> if s \<noteq> [] then s else fallback)"

definition touch :: "string \<Rightarrow> real \<Rightarrow> world_state \<Rightarrow> world_state" where
  "touch uid now ws =
     ws\<lparr>active_players := AList.update uid (JFloat (Fin now)) (active_players ws),
        is_open := True\<rparr>"

text \<open>The command is logged into the shared history, which keeps the last 50 entries.\<close>

definition log_command :: "string \<Rightarrow> string \<Rightarrow> world_state \<Rightarrow> py_error + world_state" where
  "log_command uid user_message ws =
     (let cmd_text = py_strip (if user_message \<noteq> [] then user_message else ''WAIT'') in
      if cmd_text \<noteq> [] then
        (case history_summaries ws of
           JList xs \<Rightarrow>
             Inr (ws\<lparr>history_summaries :=
                       JList (cap_log 50 (xs @ [JStr (uid @ '': '' @ cmd_text)]))\<rparr>)
         | _ \<Rightarrow> Inl AttributeError)
      else Inr ws)"

text \<open>
  The statements that open both \<^verbatim>\<open>handle_turn\<close> and \<^verbatim>\<open>apply_action_only\<close>: load or
  create the world, prune, mark the user active, log the command.
\<close>

definition begin_turn ::
  "turn_env \<Rightarrow> store \<Rightarrow> string \<Rightarrow> string \<Rightarrow> string \<Rightarrow> string option \<Rightarrow> py_error + world_state" where
  "begin_turn env st uid wid user_message seed_prompt_if_new =
     ebind (load_or_init_world_state (te_float_of_str env) st uid wid
              (seed_for seed_prompt_if_new user_message) (te_world_architect env)) (\<lambda>ws.
       log_command uid user_message
         (touch uid (te_now_touch env)
            (prune_inactive_players (te_float_of_str env) (te_now_prune env) ws)))"

text \<open>
  The window \<^verbatim>\<open>history_summaries[-10:]\<close> of the story text, taken when the history is
  truthy, and the story text itself. Appending text to a narration that is neither a
  string nor a list raises \<^verbatim>\<open>TypeError\<close>.
\<close>

definition recent_window :: "jval \<Rightarrow> py_error + jval list" where
  "recent_window history =
     (if \<not> py_truthy history then Inr []
      else case history of
             JList xs \<Rightarrow> Inr (last_n 10 xs)
           | JStr s \<Rightarrow> Inr (map (\<lambda>c. JStr [c]) (last_n 10 s))
           | _ \<Rightarrow> Inl TypeError)"

definition story_text :: "jval \<Rightarrow> turn_note list \<Rightarrow> jval \<Rightarrow> jval \<Rightarrow> py_error + scene" where
  "story_text narration extra_notes history suggested_actions =
     ebind (case narration of
              JStr _ \<Rightarrow> Inr ()
            | JList _ \<Rightarrow> Inr ()
            | _ \<Rightarrow> Inl TypeError) (\<lambda>_.
     ebind (recent_window history) (\<lambda>recent.
     ebind (py_iter suggested_actions) (\<lambda>sa.
       Inr (Scene narration extra_notes recent sa))))"

definition handle_turn ::
  "turn_env \<Rightarrow> store \<Rightarrow> string \<Rightarrow> string \<Rightarrow> string \<Rightarrow> string option
     \<Rightarrow> py_error + (string \<times> scene) \<times> store" where
  "handle_turn env st uid wid user_message seed_prompt_if_new =
     ebind (begin_turn env st uid wid user_message seed_prompt_if_new) (\<lambda>ws.
     ebind (parse_actions (te_command_interpreter env)) (\<lambda>actions.
     ebind (update_world (te_float_of_str env) (te_dialogue_weaver env) (te_event_engine env)
              (te_quest_master env) ws uid actions) (\<lambda>ur.
     ebind (py_get (te_story_conductor env) ''narration'' (JStr [])) (\<lambda>narration.
     ebind (py_get (te_story_conductor env) ''suggested_actions'' (JList [])) (\<lambda>suggested.
     let ws1 = ur_world ur;
         visual_block = te_render_turn env ws1 (ur_last_action_type ur) (ur_special_event ur)
     in ebind (story_text narration (ur_extra_notes ur) (history_summaries ws1) suggested) (\<lambda>text.
        let ws2 = ws1\<lparr>last_scene_text := Some text,
                       story_log := cap_log 100 (story_log ws1
                         @ [\<lparr>se_tick = tick ws1, se_user_id = uid, se_message = user_message,
                              se_text = text, se_timestamp = te_now_story env\<rparr>])\<rparr>
        in Inr ((visual_block, text), save_world ws2 st)))))))"

definition apply_action_only ::
  "turn_env \<Rightarrow> store \<Rightarrow> string \<Rightarrow> string \<Rightarrow> string \<Rightarrow> string option \<Rightarrow> py_error + store" where
  "apply_action_only env st uid wid user_message seed_prompt_if_new =
     ebind (begin_turn env st uid wid user_message seed_prompt_if_new) (\<lambda>ws.
     ebind (parse_actions (te_command_interpreter env)) (\<lambda>actions.
     ebind (update_world (te_float_of_str env) (te_dialogue_weaver env) (te_event_engine env)
              (te_quest_master env) ws uid actions) (\<lambda>ur.
       Inr (save_world (ur_world ur) st))))"

text \<open>
  \<^verbatim>\<open>get_state_view\<close> returns the view; the store is returned as well, unchanged, since the
  function never saves.
\<close>

datatype story_view = Message string | SceneText scene

record state_view =
  sv_visual :: string
  sv_story :: story_view

definition get_state_view ::
  "turn_env \<Rightarrow> store \<Rightarrow> string \<Rightarrow> string \<Rightarrow> state_view \<times> store" where
  "get_state_view env st uid wid =
     (case load_world st wid of
        None \<Rightarrow>
          (\<lparr>sv_visual = [],
            sv_story = Message ''This world does not exist yet. Create it by sending an action.''\<rparr>,
           st)
      | Some ws0 \<Rightarrow>
          (let ws = prune_inactive_players (te_float_of_str env) (te_now_prune env) ws0
           in (\<lparr>sv_visual = te_render_turn env ws (JStr ''LOOK'') None,
                sv_story = (case last_scene_text ws of
                              None \<Rightarrow> Message []
                            | Some text \<Rightarrow> SceneText text)\<rparr>,
               st)))"

definition leave_world :: "float_parser \<Rightarrow> real \<Rightarrow> store \<Rightarrow> string \<Rightarrow> string \<Rightarrow> store" where
  "leave_world fs now st uid wid =
     (case load_world st wid of
        None \<Rightarrow> st
      | Some ws0 \<Rightarrow>
          (let ws = prune_inactive_players fs now ws0;
               ap = (if map_of (active_players ws) uid \<noteq> None
                     then AList.delete uid (active_players ws) else active_players ws)
           in save_world (ws\<lparr>active_players := ap,
                              is_open := (if ap = [] then False else is_open ws)\<rparr>) st))"

text \<open>The chat endpoint \<^verbatim>\<open>api_chat\<close> of \<^verbatim>\<open>flask_app.py\<close>, with its HTTP status.\<close>

definition api_chat :: "store \<Rightarrow> string \<Rightarrow> string \<Rightarrow> string \<Rightarrow> nat \<times> store" where
  "api_chat st user_id0 world_id0 message0 =
     (let user_id = py_strip user_id0; wid = py_strip world_id0; message = py_strip message0 in
      if user_id = [] \<or> wid = [] \<or> message = [] then (400, st)
      else case load_world st wid of
             None \<Rightarrow> (404, st)
           | Some ws \<Rightarrow>
               (200, save_world
                  (ws\<lparr>chat_log := cap_log 200 (chat_log ws @ [ChatLine user_id message])\<rparr>) st))"

section \<open>Predicates of the statements\<close>

definition metrics_ok :: "world_metrics \<Rightarrow> bool" where
  "metrics_ok m = (in_unit (world_health m) \<and> in_unit (chaos_level m)
                   \<and> in_unit (magic_level m) \<and> in_unit (alliance_tension m))"

text \<open>
  A numeric delta: a float, of any sign and size and also an infinity or NaN, or an
  integer that \<^verbatim>\<open>float\<close> converts.
\<close>

fun numeric :: "jval \<Rightarrow> bool" where
  "numeric (JFloat _) = True"
| "numeric (JInt i) = (\<bar>i\<bar> < 2 ^ 1024 - 2 ^ 970)"
| "numeric _ = False"

definition metric_names :: "string list" where
  "metric_names = [''world_health'', ''chaos_level'', ''magic_level'', ''alliance_tension'']"

definition numeric_deltas :: "(string \<times> jval) list \<Rightarrow> bool" where
  "numeric_deltas kvs =
     list_all (\<lambda>k. case map_of kvs k of None \<Rightarrow> True | Some v \<Rightarrow> numeric v) metric_names"

text \<open>
  Every operation that saves a world leaves it open when a player is active: a turn
  marks its user active and opens the world, and leaving closes it only when nobody is
  left.
\<close>

definition presence_ok :: "world_state \<Rightarrow> bool" where
  "presence_ok ws = (active_players ws \<noteq> [] \<longrightarrow> is_open ws)"



text \<open>The region built from the fallback entry of \<^verbatim>\<open>_load_or_init_world_state\<close>.\<close>

definition fallback_region :: region where
  "fallback_region =
     \<lparr>r_id = JStr ''glass_whale_bay'', r_name = JStr ''Glass Whale Bay'',
      r_description = JStr ''A floating city built on the back of a shimmering glass whale.'',
      r_biome = JStr ''plains'', r_type = JStr ''bay'', r_neighbors = JList [],
      r_known_to_player = True, r_exits = [], r_local_quest_ids = JList [],
      r_exit_flavor = JDict []\<rparr>"




text \<open>The command of a turn is logged unless it is blank.\<close>

definition command_logged :: "string \<Rightarrow> bool" where
  "command_logged user_message =
     (py_strip (if user_message \<noteq> [] then user_message else ''WAIT'') \<noteq> [])"


section \<open>Example inputs\<close>

text \<open>
  A turn in which every collaborator fails, so that each answer is the empty object, and
  a world with two players of whom only \<open>ann\<close> is active.
\<close>

definition example_env :: turn_env where
  "example_env =
     \<lparr>te_float_of_str = (\<lambda>s. None),
      te_now_prune = 1000, te_now_touch = 1000, te_now_story = 1001,
      te_world_architect = JDict [],
      te_command_interpreter = JDict [],
      te_dialogue_weaver = (\<lambda>i. JDict []),
      te_event_engine = JDict [],
      te_quest_master = JDict [],
      te_story_conductor = JDict [],
      te_render_turn = (\<lambda>ws t sp. [])\<rparr>"

definition example_quest :: "string \<Rightarrow> string \<Rightarrow> quest" where
  "example_quest qid status =
     \<lparr>q_id = JStr qid, q_title = JStr qid, q_status = JStr status, q_summary = JStr [],
      q_related_regions = JList [], q_related_characters = JList [],
      q_answer_type = ''none'', q_correct_answers = [], q_keywords = []\<rparr>"

definition example_quests :: "(jval \<times> quest) list" where
  "example_quests = [(JStr ''main_1'', example_quest ''main_1'' ''completed''),
                     (JStr ''side_1'', example_quest ''side_1'' ''open'')]"

definition example_world :: world_state where
  "example_world =
     \<lparr>world_id = ''w1'', seed_prompt = ''a bay'', tick = 3,
      regions = [(JStr ''glass_whale_bay'',
                  \<lparr>r_id = JStr ''glass_whale_bay'', r_name = JStr ''Glass Whale Bay'',
                   r_description = JStr [], r_biome = JStr ''plains'', r_type = JStr ''bay'',
                   r_neighbors = JList [], r_known_to_player = True, r_exits = [],
                   r_local_quest_ids = JList [], r_exit_flavor = JDict []\<rparr>)],
      characters = [(JStr ''mira'',
                     \<lparr>c_id = JStr ''mira'', c_name = JStr ''Mira'', c_role = JStr ''npc'',
                      c_location_region_id = JStr ''glass_whale_bay'',
                      c_mood = JStr ''neutral'', c_loyalty = Fin (1 / 2),
                      c_traits = JList [], c_memories = JList []\<rparr>)],
      players = [(''ann'', new_player ''ann'' (JStr ''glass_whale_bay'')),
                 (''bob'', new_player ''bob'' (JStr ''glass_whale_bay''))],
      quests = example_quests,
      metrics = default_metrics,
      history_summaries = JList [],
      last_events = [],
      active_players = [(''ann'', JFloat (Fin 900))],
      last_scene_text = None,
      world_size = JStr ''medium'',
      chat_log = [],
      story_log = [],
      is_open = True\<rparr>"

definition example_store :: store where
  "example_store = Map.empty(''w1'' \<mapsto> example_world)"







section \<open>Properties\<close>

lemma ebind_Inr_iff: "ebind m f = Inr y \<longleftrightarrow> (\<exists>x. m = Inr x \<and> f x = Inr y)"
  by (cases m) (simp_all add: ebind_def)

lemma ebind_Inr [simp]: "ebind (Inr x) f = f x"
  by (simp add: ebind_def)

lemma ebind_Inl [simp]: "ebind (Inl e) f = Inl e"
  by (simp add: ebind_def)

subsection \<open>Fast forward and the tick\<close>









subsection \<open>The metrics stay in the unit interval\<close>

lemma clamp01_in_unit: "in_unit (clamp01 x)"
  by (cases x) (auto simp: clamp01_def py_min_def py_max_def)

lemma metric_step_in_unit: "metric_step fs md k old = Inr v \<Longrightarrow> in_unit v"
  by (auto simp: metric_step_def ebind_Inr_iff clamp01_in_unit)

lemma apply_metrics_delta_ok: "apply_metrics_delta fs m md = Inr m' \<Longrightarrow> metrics_ok m'"
  by (auto simp: apply_metrics_delta_def ebind_Inr_iff metrics_ok_def dest: metric_step_in_unit)

lemma advance_metrics: "advance fs ee uid n ws = Inr r \<Longrightarrow>
   \<exists>md. apply_metrics_delta fs (metrics ws) md = Inr (metrics (fst r))"
  by (auto simp: advance_def ebind_Inr_iff)

lemma numeric_float: "numeric v \<Longrightarrow> \<exists>x. py_float fs v = Inr x"
  by (cases v) auto

lemma metric_step_numeric:
  assumes "case map_of kvs k of None \<Rightarrow> True | Some v \<Rightarrow> numeric v"
  shows "\<exists>v. metric_step fs (JDict kvs) k old = Inr v"
proof (cases "map_of kvs k")
  case None
  then show ?thesis by (simp add: metric_step_def)
next
  case (Some v)
  with assms have "numeric v" by simp
  then obtain x where "py_float fs v = Inr x" using numeric_float by blast
  with Some show ?thesis by (simp add: metric_step_def)
qed

lemma apply_metrics_delta_numeric:
  assumes "numeric_deltas kvs"
  shows "\<exists>m'. apply_metrics_delta fs m (JDict kvs) = Inr m'"
proof -
  from assms
  have assms: "\<forall>k\<in>set metric_names. (case map_of kvs k of None \<Rightarrow> True | Some v \<Rightarrow> numeric v)"
    by (simp add: numeric_deltas_def list_all_iff)
  obtain a where a: "metric_step fs (JDict kvs) ''world_health'' (world_health m) = Inr a"
    using assms metric_step_numeric [of kvs "''world_health''"] by (auto simp: metric_names_def)
  obtain b where b: "metric_step fs (JDict kvs) ''chaos_level'' (chaos_level m) = Inr b"
    using assms metric_step_numeric [of kvs "''chaos_level''"] by (auto simp: metric_names_def)
  obtain c where c: "metric_step fs (JDict kvs) ''magic_level'' (magic_level m) = Inr c"
    using assms metric_step_numeric [of kvs "''magic_level''"] by (auto simp: metric_names_def)
  obtain d where d: "metric_step fs (JDict kvs) ''alliance_tension'' (alliance_tension m) = Inr d"
    using assms metric_step_numeric [of kvs "''alliance_tension''"] by (auto simp: metric_names_def)
  show ?thesis by (simp add: apply_metrics_delta_def a b c d)
qed

text \<open>
  Claim C2. Whatever the event engine answers, a world that leaves the event stage of
  \<^verbatim>\<open>_update_world\<close> has its four metrics in the unit interval; and when every delta that
  is present is numeric, of any sign and size, the four assignments to the metrics all
  complete and give values in the unit interval.
\<close>
theorem advance_keeps_metrics_in_unit:
  "(\<forall>ws' sp. advance fs ee uid n ws = Inr (ws', sp) \<longrightarrow> metrics_ok (metrics ws'))
   \<and> (\<forall>kvs. numeric_deltas kvs
        \<longrightarrow> (\<exists>m'. apply_metrics_delta fs (metrics ws) (JDict kvs) = Inr m' \<and> metrics_ok m'))"
proof (intro conjI allI impI)
  fix ws' sp assume "advance fs ee uid n ws = Inr (ws', sp)"
  from advance_metrics [OF this] show "metrics_ok (metrics ws')"
    by (auto dest: apply_metrics_delta_ok)
next
  fix kvs assume "numeric_deltas kvs"
  from apply_metrics_delta_numeric [OF this, of fs "metrics ws"]
  show "\<exists>m'. apply_metrics_delta fs (metrics ws) (JDict kvs) = Inr m' \<and> metrics_ok m'"
    by (auto dest: apply_metrics_delta_ok)
qed

theorem advance_keeps_metrics_in_unit_witness:
  "numeric_deltas [(''world_health'', JInt 5), (''chaos_level'', JFloat NInf)]
   \<and> (\<exists>m'. apply_metrics_delta (\<lambda>s. None) (metrics example_world)
              (JDict [(''world_health'', JInt 5), (''chaos_level'', JFloat NInf)]) = Inr m'
            \<and> metrics_ok m')
   \<and> (\<exists>ws' sp. advance (\<lambda>s. None)
                  (JDict [(''metrics_delta'',
                           JDict [(''world_health'', JInt 5), (''chaos_level'', JFloat NInf)])])
                  ''ann'' 1 example_world = Inr (ws', sp)
               \<and> metrics_ok (metrics ws'))"
proof -
  let ?kvs = "[(''world_health'', JInt 5), (''chaos_level'', JFloat NInf)]"
  let ?ee = "JDict [(''metrics_delta'', JDict ?kvs)]"
  have h: "numeric_deltas ?kvs"
    by (simp add: numeric_deltas_def metric_names_def)
  have run: "\<exists>r. advance (\<lambda>s. None) ?ee ''ann'' 1 example_world = Inr r"
    by (simp add: advance_def apply_metrics_delta_def metric_step_def example_world_def
          apply_stat_changes_def)
  note t = advance_keeps_metrics_in_unit [of "\<lambda>s. None" ?ee "''ann''" 1 example_world]
  from t h run show ?thesis by (metis prod.collapse)
qed

subsection \<open>Malformed deltas\<close>

lemma apply_stat_delta_malformed:
  assumes "py_float fs delta = Inl e"
  shows "map_of (apply_stat_delta fs stats (name, delta)) name
           = Some (case map_of stats name of Some v \<Rightarrow> v | None \<Rightarrow> Fin (1 / 2))
         \<and> (\<forall>k. k \<noteq> name \<longrightarrow> map_of (apply_stat_delta fs stats (name, delta)) k = map_of stats k)"
  using assms by (simp add: apply_stat_delta_def AList.update_conv')

lemma apply_npc_effects_malformed:
  assumes "map_of kvs ''npc_loyalty_delta'' = Some d" and "py_float fs d = Inl e"
  shows "\<exists>npc'. apply_npc_effects fs npc (JDict kvs) = Inr npc' \<and> c_loyalty npc' = c_loyalty npc"
  using assms by (cases "map_of kvs ''npc_mood''") (simp_all add: apply_npc_effects_def)

text \<open>
  Claim C3. A delta of a world metric that is not a number is not caught: with
  \<^verbatim>\<open>{"metrics_delta": {"world_health": null}}\<close> the conversion \<^verbatim>\<open>float(None)\<close> raises
  \<^verbatim>\<open>TypeError\<close> out of the event stage, for every world, user and number of ticks, and
  the turn ends there. The deltas of a player statistic and of the loyalty of an NPC are
  caught, as \<open>apply_stat_delta_malformed\<close> and \<open>apply_npc_effects_malformed\<close> show.
\<close>
theorem metric_delta_null_aborts:
  "advance fs (JDict [(''metrics_delta'', JDict [(''world_health'', JNull)])]) uid n ws = Inl TypeError"
  by (simp add: advance_def apply_metrics_delta_def metric_step_def)

subsection \<open>The bounded logs\<close>































lemma blank_not_logged: "\<not> command_logged ''  ''"
  by (simp add: command_logged_def py_strip_def is_space_def)



subsection \<open>Talking to a player who is away\<close>



subsection \<open>Presence\<close>

lemma delete_fold_filter:
  "foldl (\<lambda>d k. AList.delete k d) d ks = filter (\<lambda>e. fst e \<notin> set ks) d"
proof (induction ks arbitrary: d)
  case Nil
  then show ?case by simp
next
  case (Cons k ks)
  have "AList.delete k d = filter (\<lambda>e. fst e \<noteq> k) d"
    by (induction d) auto
  then show ?case using Cons.IH [of "AList.delete k d"]
    by (simp add: conj_commute)
qed

lemma filter_keys_distinct:
  assumes "distinct (map fst d)"
  shows "filter (\<lambda>e. fst e \<notin> set (map fst (filter P d))) d = filter (\<lambda>e. \<not> P e) d"
proof (rule filter_cong [OF refl])
  fix e assume e: "e \<in> set d"
  show "(fst e \<notin> set (map fst (filter P d))) = (\<not> P e)"
  proof
    assume "fst e \<notin> set (map fst (filter P d))"
    with e show "\<not> P e" by force
  next
    assume np: "\<not> P e"
    show "fst e \<notin> set (map fst (filter P d))"
    proof
      assume "fst e \<in> set (map fst (filter P d))"
      then obtain e' where e': "e' \<in> set d" "P e'" "fst e' = fst e" by auto
      with assms e have "e' = e" by (metis eq_key_imp_eq_value prod.collapse)
      with e' np show False by simp
    qed
  qed
qed

lemma prune_active:
  "distinct (map fst (active_players ws)) \<Longrightarrow>
   active_players (prune_inactive_players fs now ws)
     = filter (\<lambda>e. \<not> timed_out fs now (snd e)) (active_players ws)"
  using filter_keys_distinct [of "active_players ws" "\<lambda>e. timed_out fs now (snd e)"]
  by (simp add: prune_inactive_players_def Let_def delete_fold_filter del: set_map set_filter)

lemma prune_is_open:
  "is_open (prune_inactive_players fs now ws)
     = (if active_players (prune_inactive_players fs now ws) = [] then False else is_open ws)"
  by (simp add: prune_inactive_players_def Let_def)

lemma timed_out_finite: "timed_out fs now (JFloat (Fin t)) = (600 < now - t)"
  by (simp add: timed_out_def fsub_def SESSION_TIMEOUT_SECONDS_def)

text \<open>
  Claim C10. \<^verbatim>\<open>_prune_inactive_players\<close> keeps exactly the entries that are not timed out,
  in their order; an entry is timed out when its timestamp does not convert to a float
  or lies more than \<^verbatim>\<open>SESSION_TIMEOUT_SECONDS\<close> = 600 seconds before \<open>now\<close>; the world is
  closed when no entry is left and \<^verbatim>\<open>is_open\<close> is unchanged otherwise; no other field
  changes. The keys of \<^verbatim>\<open>active_players\<close> are distinct, as in every Python dict.
\<close>
theorem prune_removes_exactly_the_timed_out:
  assumes "distinct (map fst (active_players ws))"
  shows "active_players (prune_inactive_players fs now ws)
           = filter (\<lambda>e. \<not> timed_out fs now (snd e)) (active_players ws)
         \<and> (\<forall>ts. timed_out fs now ts
               = (case py_float fs ts of
                    Inl _ \<Rightarrow> True
                  | Inr t \<Rightarrow> fless (Fin SESSION_TIMEOUT_SECONDS) (fsub (Fin now) t)))
         \<and> (\<forall>t. timed_out fs now (JFloat (Fin t)) = (600 < now - t))
         \<and> is_open (prune_inactive_players fs now ws)
             = (if active_players (prune_inactive_players fs now ws) = [] then False
                else is_open ws)
         \<and> prune_inactive_players fs now ws
             = ws\<lparr>active_players := active_players (prune_inactive_players fs now ws),
                  is_open := is_open (prune_inactive_players fs now ws)\<rparr>"
proof (intro conjI allI)
  show "active_players (prune_inactive_players fs now ws)
          = filter (\<lambda>e. \<not> timed_out fs now (snd e)) (active_players ws)"
    by (rule prune_active [OF assms])
  show "\<And>ts. timed_out fs now ts
               = (case py_float fs ts of
                    Inl _ \<Rightarrow> True
                  | Inr t \<Rightarrow> fless (Fin SESSION_TIMEOUT_SECONDS) (fsub (Fin now) t))"
    by (simp add: timed_out_def)
  show "\<And>t. timed_out fs now (JFloat (Fin t)) = (600 < now - t)"
    by (rule timed_out_finite)
  show "is_open (prune_inactive_players fs now ws)
             = (if active_players (prune_inactive_players fs now ws) = [] then False
                else is_open ws)"
    by (rule prune_is_open)
  show "prune_inactive_players fs now ws
             = ws\<lparr>active_players := active_players (prune_inactive_players fs now ws),
                  is_open := is_open (prune_inactive_players fs now ws)\<rparr>"
    by (simp add: prune_inactive_players_def Let_def)
qed

theorem prune_removes_exactly_the_timed_out_witness:
  "distinct (map fst (active_players example_world))
   \<and> active_players (prune_inactive_players (\<lambda>s. None) 2000 example_world) = []
   \<and> \<not> is_open (prune_inactive_players (\<lambda>s. None) 2000 example_world)
   \<and> active_players (prune_inactive_players (\<lambda>s. None) 1000 example_world)
       = [(''ann'', JFloat (Fin 900))]
   \<and> is_open (prune_inactive_players (\<lambda>s. None) 1000 example_world)"
  using prune_removes_exactly_the_timed_out [of example_world "\<lambda>s. None" 2000]
    prune_removes_exactly_the_timed_out [of example_world "\<lambda>s. None" 1000]
  by (simp add: example_world_def fsub_def SESSION_TIMEOUT_SECONDS_def)

lemma prune_presence_ok: "presence_ok ws \<Longrightarrow> presence_ok (prune_inactive_players fs now ws)"
  by (auto simp: presence_ok_def prune_inactive_players_def Let_def)

lemma talk_to_player_open:
  "talk_to_player uid act tp rs = Inr rs' \<Longrightarrow>
   is_open (rs_world rs') = is_open (rs_world rs)
   \<and> active_players (rs_world rs') = active_players (rs_world rs)"
  by (auto simp: talk_to_player_def Let_def split: option.splits)

lemma talk_to_npc_open:
  "talk_to_npc fs dw uid i act rs = Inr rs' \<Longrightarrow>
   is_open (rs_world rs') = is_open (rs_world rs)
   \<and> active_players (rs_world rs') = active_players (rs_world rs)"
  by (auto simp: talk_to_npc_def Let_def ebind_Inr_iff)

lemma resolve_action_open:
  assumes "resolve_action fs dw uid rs ia = Inr rs'"
  shows "is_open (rs_world rs') = is_open (rs_world rs)
         \<and> active_players (rs_world rs') = active_players (rs_world rs)"
  using assms
  by (auto simp: resolve_action_def Let_def ebind_Inr_iff
        split: if_splits option.splits dest: talk_to_player_open talk_to_npc_open)

lemma efold_resolve_open:
  "efold (resolve_action fs dw uid) rs ias = Inr rs' \<Longrightarrow>
   is_open (rs_world rs') = is_open (rs_world rs)
   \<and> active_players (rs_world rs') = active_players (rs_world rs)"
proof (induction ias arbitrary: rs)
  case Nil
  then show ?case by simp
next
  case (Cons ia ias)
  from Cons.prems obtain rs1 where
    step: "resolve_action fs dw uid rs ia = Inr rs1" and
    rest: "efold (resolve_action fs dw uid) rs1 ias = Inr rs'"
    by (auto split: sum.splits)
  from resolve_action_open [OF step] Cons.IH [OF rest]
  show ?case by simp
qed

lemma update_world_open:
  assumes "update_world fs dw ee qm ws uid actions = Inr ur"
  shows "is_open (ur_world ur) = is_open ws \<and> active_players (ur_world ur) = active_players ws"
proof -
  from assms obtain rs adv qst where
    rs: "resolve_actions fs dw uid ws actions = Inr rs" and
    adv: "advance fs ee uid (rs_num_ticks rs) (rs_world rs) = Inr adv" and
    qst: "quest_stage fs qm uid (fst adv) = Inr qst" and
    ur: "ur_world ur = fst qst"
    by (auto simp: update_world_def ebind_Inr_iff split: option.splits)
  from rs have "is_open (rs_world rs) = is_open ws
      \<and> active_players (rs_world rs) = active_players ws"
    using efold_resolve_open [of fs dw uid _ "zip [0 ..< length actions] actions" rs]
    by (simp add: resolve_actions_def)
  moreover from adv have "is_open (fst adv) = is_open (rs_world rs)
      \<and> active_players (fst adv) = active_players (rs_world rs)"
    by (auto simp: advance_def ebind_Inr_iff)
  moreover from qst have "is_open (fst qst) = is_open (fst adv)
      \<and> active_players (fst qst) = active_players (fst adv)"
    by (auto simp: quest_stage_def Let_def ebind_Inr_iff)
  ultimately show ?thesis using ur by simp
qed

lemma begin_turn_open: "begin_turn env st uid wid msg seed = Inr ws \<Longrightarrow> is_open ws"
  by (auto simp: begin_turn_def ebind_Inr_iff log_command_def touch_def Let_def
        split: if_splits jval.splits)

lemma handle_turn_presence_ok:
  assumes "handle_turn env st uid wid msg seed = Inr (out, st')"
  shows "\<exists>ws'. st' = save_world ws' st \<and> presence_ok ws'"
proof -
  from assms obtain ws actions ur sc where
    bt: "begin_turn env st uid wid msg seed = Inr ws" and
    uw: "update_world (te_float_of_str env) (te_dialogue_weaver env) (te_event_engine env)
           (te_quest_master env) ws uid actions = Inr ur" and
    st': "st' = save_world ((ur_world ur)\<lparr>last_scene_text := Some sc,
             story_log := cap_log 100 (story_log (ur_world ur)
               @ [\<lparr>se_tick = tick (ur_world ur), se_user_id = uid, se_message = msg,
                    se_text = sc, se_timestamp = te_now_story env\<rparr>])\<rparr>) st"
    by (auto simp: handle_turn_def Let_def ebind_Inr_iff)
  from begin_turn_open [OF bt] update_world_open [OF uw]
  have "presence_ok ((ur_world ur)\<lparr>last_scene_text := Some sc,
             story_log := cap_log 100 (story_log (ur_world ur)
               @ [\<lparr>se_tick = tick (ur_world ur), se_user_id = uid, se_message = msg,
                    se_text = sc, se_timestamp = te_now_story env\<rparr>])\<rparr>)"
    by (simp add: presence_ok_def)
  with st' show ?thesis by blast
qed

lemma apply_action_only_presence_ok:
  assumes "apply_action_only env st uid wid msg seed = Inr st'"
  shows "\<exists>ws'. st' = save_world ws' st \<and> presence_ok ws'"
proof -
  from assms obtain ws actions ur where
    bt: "begin_turn env st uid wid msg seed = Inr ws" and
    uw: "update_world (te_float_of_str env) (te_dialogue_weaver env) (te_event_engine env)
           (te_quest_master env) ws uid actions = Inr ur" and
    st': "st' = save_world (ur_world ur) st"
    by (auto simp: apply_action_only_def ebind_Inr_iff)
  from begin_turn_open [OF bt] update_world_open [OF uw]
  have "presence_ok (ur_world ur)" by (simp add: presence_ok_def)
  with st' show ?thesis by blast
qed

lemma leave_world_presence_ok:
  assumes "load_world st wid = Some ws" and "presence_ok ws"
  shows "\<exists>ws'. leave_world fs now st uid wid = save_world ws' st \<and> presence_ok ws'"
  using assms prune_presence_ok [OF assms(2), of fs now]
  by (auto simp: leave_world_def Let_def presence_ok_def)

lemma api_chat_presence_ok:
  assumes "api_chat st u w m = (200, st')"
  shows "\<exists>ws0 ws'. load_world st (py_strip w) = Some ws0 \<and> st' = save_world ws' st
           \<and> (presence_ok ws0 \<longrightarrow> presence_ok ws')"
  using assms
  by (auto simp: api_chat_def Let_def presence_ok_def split: if_splits option.splits)

text \<open>
  Claim C6. For a stored world, \<^verbatim>\<open>leave_world\<close> saves the world without the leaving user
  among the active players that remain after pruning; the saved world is closed when no
  active player is left and open when one remains. The stored world is one that the
  orchestrator saved: it is filed under its own id and is open if a player is active.
\<close>
theorem leave_world_removes_user_and_rederives_is_open:
  assumes "load_world st wid = Some ws" and "world_id ws = wid" and "presence_ok ws"
  shows "\<exists>ws'. load_world (leave_world fs now st uid wid) wid = Some ws'
           \<and> active_players ws' = AList.delete uid (active_players (prune_inactive_players fs now ws))
           \<and> map_of (active_players ws') uid = None
           \<and> (active_players ws' = [] \<longrightarrow> \<not> is_open ws')
           \<and> (active_players ws' \<noteq> [] \<longrightarrow> is_open ws')"
proof -
  let ?p = "prune_inactive_players fs now ws"
  have wid: "world_id ?p = wid" using assms(2) by (simp add: prune_inactive_players_def Let_def)
  have ok: "presence_ok ?p" using assms(3) by (rule prune_presence_ok)
  have del: "map_of (active_players ?p) uid = None \<Longrightarrow> AList.delete uid (active_players ?p) = active_players ?p"
    by (simp add: map_of_eq_None_iff)
  show ?thesis
    using assms(1) wid ok del
    by (auto simp: leave_world_def Let_def load_world_def save_world_def presence_ok_def
          AList.delete_conv')
qed

theorem leave_world_removes_user_and_rederives_is_open_witness:
  "load_world example_store ''w1'' = Some example_world
   \<and> world_id example_world = ''w1''
   \<and> presence_ok example_world
   \<and> (\<exists>ws'. load_world (leave_world (\<lambda>s. None) 1000 example_store ''ann'' ''w1'') ''w1'' = Some ws'
         \<and> active_players ws' = [] \<and> \<not> is_open ws')"
proof -
  have h1: "load_world example_store ''w1'' = Some example_world"
    by (simp add: load_world_def example_store_def)
  have h2: "world_id example_world = ''w1''" by (simp add: example_world_def)
  have h3: "presence_ok example_world" by (simp add: presence_ok_def example_world_def)
  have p: "active_players (prune_inactive_players (\<lambda>s. None) 1000 example_world)
             = [(''ann'', JFloat (Fin 900))]"
    by (simp add: prune_inactive_players_def example_world_def timed_out_def fsub_def
          SESSION_TIMEOUT_SECONDS_def)
  from leave_world_removes_user_and_rederives_is_open [OF h1 h2 h3, of "\<lambda>s. None" 1000 "''ann''"]
  obtain ws' where
    "load_world (leave_world (\<lambda>s. None) 1000 example_store ''ann'' ''w1'') ''w1'' = Some ws'"
    "active_players ws' = AList.delete ''ann'' (active_players (prune_inactive_players (\<lambda>s. None) 1000 example_world))"
    "active_players ws' = [] \<longrightarrow> \<not> is_open ws'"
    by blast
  with p h1 h2 h3 show ?thesis by simp
qed

subsection \<open>The quest map\<close>








subsection \<open>A new world and its first player\<close>

lemma fallback_regions_built:
  "ebind (py_iter fallback_regions) (efold add_region [])
     = Inr [(JStr ''glass_whale_bay'', fallback_region)]"
  by (simp add: fallback_regions_def add_region_def region_of_json_def set_item_def dict_get_def
        fallback_region_def)

lemma fallback_first_id:
  "(case fallback_regions of JList (r # _) \<Rightarrow> py_item r ''id'' | _ \<Rightarrow> Inl TypeError)
     = Inr (JStr ''glass_whale_bay'')"
  by (simp add: fallback_regions_def)

lemma fallback_iter: "\<exists>rs. py_iter fallback_regions = Inr rs
    \<and> efold add_region [] rs = Inr [(JStr ''glass_whale_bay'', fallback_region)]"
  using fallback_regions_built by (auto simp: ebind_Inr_iff)

lemma new_world_fallback:
  assumes "\<not> py_truthy (dict_get w ''regions'' (JList []))"
    and "new_world fs wid seed (JDict w) = Inr ws"
  shows "regions ws = [(JStr ''glass_whale_bay'', fallback_region)] \<and> players ws = []"
proof -
  from fallback_iter obtain rs where rs: "py_iter fallback_regions = Inr rs"
    "efold add_region [] rs = Inr [(JStr ''glass_whale_bay'', fallback_region)]" by blast
  from assms(2) assms(1) rs show ?thesis
    by (auto simp: new_world_def Let_def ebind_Inr_iff)
qed

lemma new_world_progress:
  assumes "\<not> py_truthy (dict_get w ''regions'' (JList []))"
    and "py_iter (dict_get w ''starter_quests'' (JList [])) = Inr qs"
    and "dict_get w ''starter_characters'' (JList []) = JList []"
  shows "\<exists>ws. new_world fs wid seed (JDict w) = Inr ws"
proof -
  from fallback_iter obtain rs where rs: "py_iter fallback_regions = Inr rs"
    "efold add_region [] rs = Inr [(JStr ''glass_whale_bay'', fallback_region)]" by blast
  with assms fallback_first_id show ?thesis
    by (simp add: new_world_def Let_def)
qed

lemma ensure_player_new:
  assumes "map_of (players ws) uid = None" and "ensure_player uid ws = Inr ws'"
  shows "regions ws \<noteq> []
         \<and> players ws' = AList.update uid (new_player uid (fst (hd (regions ws)))) (players ws)
         \<and> regions ws' = regions ws"
  using assms by (cases "regions ws") (auto simp: ensure_player_def)

lemma ensure_player_progress:
  "regions ws \<noteq> [] \<Longrightarrow> \<exists>ws'. ensure_player uid ws = Inr ws'"
  by (cases "regions ws") (auto simp: ensure_player_def)

text \<open>
  Claim C8. For a world id that the store does not hold and an answer of the world
  architect without regions, a world that \<^verbatim>\<open>_load_or_init_world_state\<close> returns has
  exactly one region, the fallback region of type \<^verbatim>\<open>bay\<close>, and exactly one player, the
  user of the turn, placed in that region; the creation completes when the architect
  names no starter characters and its starter quests can be iterated. In any world, a
  player that is created is placed in the first region of the world, and a new player
  has the stats courage, empathy and cunning at 0.5 each.
\<close>
theorem new_world_fallback_region_and_first_player:
  assumes "load_world st wid = None"
    and "\<not> py_truthy (dict_get w ''regions'' (JList []))"
  shows "(\<forall>ws. load_or_init_world_state fs st uid wid seed (JDict w) = Inr ws \<longrightarrow>
            regions ws = [(JStr ''glass_whale_bay'', fallback_region)]
            \<and> players ws = [(uid, new_player uid (JStr ''glass_whale_bay''))])
         \<and> r_type fallback_region = JStr ''bay''
         \<and> ((\<exists>qs. py_iter (dict_get w ''starter_quests'' (JList [])) = Inr qs)
              \<and> dict_get w ''starter_characters'' (JList []) = JList []
            \<longrightarrow> (\<exists>ws. load_or_init_world_state fs st uid wid seed (JDict w) = Inr ws))
         \<and> (\<forall>ws0 ws1. map_of (players ws0) uid = None \<and> ensure_player uid ws0 = Inr ws1 \<longrightarrow>
               regions ws0 \<noteq> []
               \<and> map_of (players ws1) uid = Some (new_player uid (fst (hd (regions ws0)))))
         \<and> p_location_region_id (new_player uid rid) = rid
         \<and> p_stats (new_player uid rid)
             = [(''courage'', Fin (1 / 2)), (''empathy'', Fin (1 / 2)), (''cunning'', Fin (1 / 2))]"
proof (intro conjI allI impI)
  fix ws assume "load_or_init_world_state fs st uid wid seed (JDict w) = Inr ws"
  with assms(1) obtain ws0 where
    nw: "new_world fs wid seed (JDict w) = Inr ws0" and ep: "ensure_player uid ws0 = Inr ws"
    by (auto simp: load_or_init_world_state_def ebind_Inr_iff)
  from new_world_fallback [OF assms(2) nw]
  have r: "regions ws0 = [(JStr ''glass_whale_bay'', fallback_region)]" and p: "players ws0 = []"
    by simp_all
  from p have "map_of (players ws0) uid = None" by simp
  from ensure_player_new [OF this ep] r p
  show "regions ws = [(JStr ''glass_whale_bay'', fallback_region)]"
    and "players ws = [(uid, new_player uid (JStr ''glass_whale_bay''))]"
    by simp_all
next
  show "r_type fallback_region = JStr ''bay''" by (simp add: fallback_region_def)
next
  assume a: "(\<exists>qs. py_iter (dict_get w ''starter_quests'' (JList [])) = Inr qs)
              \<and> dict_get w ''starter_characters'' (JList []) = JList []"
  then obtain qs where "py_iter (dict_get w ''starter_quests'' (JList [])) = Inr qs" by blast
  from new_world_progress [OF assms(2) this, of fs wid seed] a
  obtain ws0 where nw: "new_world fs wid seed (JDict w) = Inr ws0" by blast
  from new_world_fallback [OF assms(2) nw] have "regions ws0 \<noteq> []" by simp
  from ensure_player_progress [OF this, of uid] obtain ws where "ensure_player uid ws0 = Inr ws"
    by blast
  with nw assms(1) show "\<exists>ws. load_or_init_world_state fs st uid wid seed (JDict w) = Inr ws"
    by (simp add: load_or_init_world_state_def)
next
  fix ws0 ws1 assume a: "map_of (players ws0) uid = None \<and> ensure_player uid ws0 = Inr ws1"
  then have n: "map_of (players ws0) uid = None" and e: "ensure_player uid ws0 = Inr ws1"
    by simp_all
  from ensure_player_new [OF n e]
  show "regions ws0 \<noteq> []"
    and "map_of (players ws1) uid = Some (new_player uid (fst (hd (regions ws0))))"
    by (simp_all add: AList.update_conv')
next
  show "p_location_region_id (new_player uid rid) = rid" by (simp add: new_player_def)
  show "p_stats (new_player uid rid)
             = [(''courage'', Fin (1 / 2)), (''empathy'', Fin (1 / 2)), (''cunning'', Fin (1 / 2))]"
    by (simp add: new_player_def default_stats_def)
qed

theorem new_world_fallback_region_and_first_player_witness:
  "load_world Map.empty ''w1'' = None
   \<and> \<not> py_truthy (dict_get [] ''regions'' (JList []))
   \<and> (\<exists>ws. load_or_init_world_state (\<lambda>s. None) Map.empty ''ann'' ''w1'' ''Create a new world.''
              (JDict []) = Inr ws
          \<and> regions ws = [(JStr ''glass_whale_bay'', fallback_region)]
          \<and> players ws = [(''ann'', new_player ''ann'' (JStr ''glass_whale_bay''))])"
proof -
  have h1: "load_world Map.empty ''w1'' = None" by (simp add: load_world_def)
  have h2: "\<not> py_truthy (dict_get [] ''regions'' (JList []))" by (simp add: dict_get_def)
  have h3: "(\<exists>qs. py_iter (dict_get [] ''starter_quests'' (JList [])) = Inr qs)
              \<and> dict_get [] ''starter_characters'' (JList []) = JList []"
    by (simp add: dict_get_def)
  note t = new_world_fallback_region_and_first_player
             [OF h1 h2, of "\<lambda>s. None" "''ann''" "''Create a new world.''"]
  from t h3 obtain ws where
    "load_or_init_world_state (\<lambda>s. None) Map.empty ''ann'' ''w1'' ''Create a new world.''
       (JDict []) = Inr ws" by blast
  with t h1 h2 show ?thesis by blast
qed

subsection \<open>Reading a world that does not exist\<close>

text \<open>
  Claim C9. For a world id that the store does not hold, \<^verbatim>\<open>get_state_view\<close> raises
  nothing and returns the empty visual text with the message that the world does not
  exist yet; the store is as before.
\<close>
theorem get_state_view_unknown_world:
  assumes "load_world st wid = None"
  shows "get_state_view env st uid wid
           = (\<lparr>sv_visual = [],
               sv_story = Message ''This world does not exist yet. Create it by sending an action.''\<rparr>,
              st)"
  using assms by (simp add: get_state_view_def)

theorem get_state_view_unknown_world_witness:
  "load_world Map.empty ''w1'' = None
   \<and> get_state_view example_env Map.empty ''ann'' ''w1''
       = (\<lparr>sv_visual = [],
           sv_story = Message ''This world does not exist yet. Create it by sending an action.''\<rparr>,
          Map.empty)"
  using get_state_view_unknown_world [of Map.empty "''w1''" example_env "''ann''"]
  by (simp add: load_world_def)

end
